theory Spec2Isabelle
  imports Complex_Main
begin

section \<open>PCM encoder (src/utils/audioExport.ts)\<close>

subsection \<open>JavaScript numbers held in a channel\<close>

text \<open>
  A channel of an AudioBuffer is a Float32Array. Its elements are finite numbers,
  the two infinities, or NaN. Every finite float32 value is a rational number with a
  24-bit significand, so its product with the constants 0x8000 and 0x7fff is exact in
  double precision: on the values the encoder computes, real arithmetic and the
  arithmetic of the source coincide.
\<close>

datatype sample = Num real | PosInf | NegInf | NaN

text \<open>The operator \<open><\<close> of the source: false as soon as one side is NaN.\<close>

fun js_less :: "sample \<Rightarrow> sample \<Rightarrow> bool" where
  "js_less NaN _ = False"
| "js_less _ NaN = False"
| "js_less _ NegInf = False"
| "js_less NegInf _ = True"
| "js_less PosInf _ = False"
| "js_less _ PosInf = True"
| "js_less (Num a) (Num b) = (a < b)"

text \<open>\<open>Math.min\<close> and \<open>Math.max\<close> on two arguments: NaN is contagious.\<close>

definition Math_min :: "sample \<Rightarrow> sample \<Rightarrow> sample" where
  "Math_min a b = (if a = NaN \<or> b = NaN then NaN else if js_less b a then b else a)"

definition Math_max :: "sample \<Rightarrow> sample \<Rightarrow> sample" where
  "Math_max a b = (if a = NaN \<or> b = NaN then NaN else if js_less a b then b else a)"

text \<open>The product of a number with a finite constant.\<close>

fun js_mul :: "sample \<Rightarrow> real \<Rightarrow> sample" where
  "js_mul (Num a) k = Num (a * k)"
| "js_mul NaN k = NaN"
| "js_mul PosInf k = (if 0 < k then PosInf else if k < 0 then NegInf else NaN)"
| "js_mul NegInf k = (if 0 < k then NegInf else if k < 0 then PosInf else NaN)"

text \<open>
  \<open>x | 0\<close> is ToInt32: NaN and the infinities give 0, a finite number is truncated
  towards zero and then wrapped into the signed 32-bit range.
\<close>

definition js_trunc :: "real \<Rightarrow> int" where
  "js_trunc a = (if a < 0 then \<lceil>a\<rceil> else \<lfloor>a\<rfloor>)"

definition wrap_int32 :: "int \<Rightarrow> int" where
  "wrap_int32 i = (i + 2 ^ 31) mod 2 ^ 32 - 2 ^ 31"

fun to_int32 :: "sample \<Rightarrow> int" where
  "to_int32 (Num a) = wrap_int32 (js_trunc a)"
| "to_int32 _ = 0"

text \<open>
  \<open>channels[i][offset]\<close>: a read past the end of a typed array is \<open>undefined\<close>,
  which \<open>Math.min\<close> converts to NaN.
\<close>

definition channel_at :: "sample list \<Rightarrow> nat \<Rightarrow> sample" where
  "channel_at ch offset = (if offset < length ch then ch ! offset else NaN)"

text \<open>
  Lines 41 and 42 of the source:
  \<^verbatim>\<open>sample = Math.max(-1, Math.min(1, channels[i][offset]));\<close>
  \<^verbatim>\<open>sample = (sample < 0 ? sample * 0x8000 : sample * 0x7fff) | 0;\<close>
\<close>

definition quantize :: "sample \<Rightarrow> int" where
  "quantize x =
     (let sample = Math_max (Num (- 1)) (Math_min (Num 1) x)
      in to_int32 (if js_less sample (Num 0) then js_mul sample 32768
                   else js_mul sample 32767))"

subsection \<open>The output buffer and the DataView writes\<close>

type_synonym byte = nat

datatype error = RangeError

text \<open>
  The encoder owns an ArrayBuffer \<open>view\<close> of fixed size and a write position \<open>pos\<close>.
  A DataView write that does not fit into the buffer throws RangeError.
\<close>

record wav_state =
  view :: "byte list"
  pos :: nat

definition le16 :: "nat \<Rightarrow> byte list" where
  "le16 d = [d mod 2 ^ 16 mod 256, d mod 2 ^ 16 div 256]"

definition le32 :: "nat \<Rightarrow> byte list" where
  "le32 d = [d mod 2 ^ 32 mod 256, d mod 2 ^ 32 div 256 mod 256,
             d mod 2 ^ 32 div 65536 mod 256, d mod 2 ^ 32 div 16777216]"

text \<open>ToInt16 followed by the two bytes of the two's complement pattern, low byte first.\<close>

definition int16_le :: "int \<Rightarrow> byte list" where
  "int16_le v = [nat (v mod 2 ^ 16 mod 256), nat (v mod 2 ^ 16 div 256)]"

definition put :: "byte list \<Rightarrow> wav_state \<Rightarrow> error + wav_state" where
  "put bs st =
     (if pos st + length bs \<le> length (view st)
      then Inr \<lparr>view = take (pos st) (view st) @ bs @ drop (pos st + length bs) (view st),
                pos = pos st + length bs\<rparr>
      else Inl RangeError)"

text \<open>
  The local helpers \<open>setUint16\<close> and \<open>setUint32\<close>, and
  \<open>view.setInt16(pos, sample, true); pos += 2\<close>. The unsigned writes keep the low 16 or
  32 bits of their argument, as ToUint16 and ToUint32 do.
\<close>

definition setUint16 :: "nat \<Rightarrow> wav_state \<Rightarrow> error + wav_state" where
  "setUint16 data = put (le16 data)"

definition setUint32 :: "nat \<Rightarrow> wav_state \<Rightarrow> error + wav_state" where
  "setUint32 data = put (le32 data)"

definition setInt16 :: "int \<Rightarrow> wav_state \<Rightarrow> error + wav_state" where
  "setInt16 v = put (int16_le v)"

text \<open>A sequence of statements, stopping at the first one that throws.\<close>

fun run :: "(wav_state \<Rightarrow> error + wav_state) list \<Rightarrow> wav_state \<Rightarrow> error + wav_state" where
  "run [] st = Inr st"
| "run (w # ws) st = (case w st of Inl e \<Rightarrow> Inl e | Inr st' \<Rightarrow> run ws st')"

subsection \<open>AudioBuffer and audioBufferToWav\<close>

text \<open>
  \<open>buf_length\<close> is the attribute \<open>length\<close> of the source (frames per channel),
  \<open>numberOfChannels\<close> the number of channel arrays, \<open>duration\<close> the attribute the
  Web Audio API derives as length over sample rate. The sample rate is an integer, as in
  the data model of the specification. The record does not tie the length of a channel to
  \<open>buf_length\<close>: \<open>well_shaped\<close> below says when they agree.
\<close>

record AudioBuffer =
  channelData :: "sample list list"
  buf_length :: nat
  sampleRate :: nat

definition numberOfChannels :: "AudioBuffer \<Rightarrow> nat" where
  "numberOfChannels b = length (channelData b)"

definition duration :: "AudioBuffer \<Rightarrow> real" where
  "duration b = real (buf_length b) / real (sampleRate b)"

record Blob =
  blob_bytes :: "byte list"
  blob_type :: string

text \<open>
  The header. \<open>len\<close> is at least 44 and \<open>pos\<close> is 40 at the last write, so the
  subtractions of the source are subtractions of natural numbers.
\<close>

definition write_header :: "AudioBuffer \<Rightarrow> nat \<Rightarrow> wav_state \<Rightarrow> error + wav_state" where
  "write_header b len =
     run [setUint32 0x46464952,
          setUint32 (len - 8),
          setUint32 0x45564157,
          setUint32 0x20746d66,
          setUint32 16,
          setUint16 1,
          setUint16 (numberOfChannels b),
          setUint32 (sampleRate b),
          setUint32 (sampleRate b * 2 * numberOfChannels b),
          setUint16 (numberOfChannels b * 2),
          setUint16 16,
          setUint32 0x61746164,
          (\<lambda>st. setUint32 (len - pos st - 4) st)]"

text \<open>The inner \<open>for\<close> loop: one sample of every channel, in channel order.\<close>

fun write_frame :: "sample list list \<Rightarrow> nat \<Rightarrow> wav_state \<Rightarrow> error + wav_state" where
  "write_frame [] offset st = Inr st"
| "write_frame (ch # chs) offset st =
     (case setInt16 (quantize (channel_at ch offset)) st of
        Inl e \<Rightarrow> Inl e
      | Inr st' \<Rightarrow> write_frame chs offset st')"

text \<open>
  The outer \<open>while (pos < length)\<close> loop. Nothing in the loop itself bounds the number
  of rounds (with no channel \<open>pos\<close> does not move), so the result is optional: None
  stands for a loop that does not return.
\<close>

partial_function (option) write_data ::
  "sample list list \<Rightarrow> nat \<Rightarrow> nat \<Rightarrow> wav_state \<Rightarrow> (error + wav_state) option" where
  "write_data channels len offset st =
     (if pos st < len
      then (case write_frame channels offset st of
              Inl e \<Rightarrow> Some (Inl e)
            | Inr st' \<Rightarrow> write_data channels len (offset + 1) st')
      else Some (Inr st))"

definition audioBufferToWav :: "AudioBuffer \<Rightarrow> (error + Blob) option" where
  "audioBufferToWav b =
     (let numOfChan = numberOfChannels b;
          len = buf_length b * numOfChan * 2 + 44;
          st0 = \<lparr>view = replicate len 0, pos = 0\<rparr>
      in case write_header b len st0 of
           Inl e \<Rightarrow> Some (Inl e)
         | Inr st1 \<Rightarrow>
             (case write_data (channelData b) len 0 st1 of
                None \<Rightarrow> None
              | Some (Inl e) \<Rightarrow> Some (Inl e)
              | Some (Inr st2) \<Rightarrow> Some (Inr \<lparr>blob_bytes = view st2, blob_type = ''audio/wav''\<rparr>)))"

definition audioBufferToMp3 :: "AudioBuffer \<Rightarrow> (error + Blob) option" where
  "audioBufferToMp3 b = audioBufferToWav b"

text \<open>
  \<open>audioBufferToWav\<close> above takes the output buffer of line 8 as allocated.
  \<open>new ArrayBuffer(length)\<close> throws RangeError when the engine does not allocate that
  many bytes. The largest length it allocates is a constant of the engine, not of the
  source: it is the argument \<open>maxByteLength\<close>. \<open>audioBufferToWav_alloc\<close> is the function
  with that allocation; where the output fits, the two agree
  (\<open>audioBufferToWav_alloc_fits\<close>).
\<close>

definition new_ArrayBuffer :: "nat \<Rightarrow> nat \<Rightarrow> error + byte list" where
  "new_ArrayBuffer maxByteLength len =
     (if len \<le> maxByteLength then Inr (replicate len 0) else Inl RangeError)"

definition audioBufferToWav_alloc :: "nat \<Rightarrow> AudioBuffer \<Rightarrow> (error + Blob) option" where
  "audioBufferToWav_alloc maxByteLength b =
     (let numOfChan = numberOfChannels b;
          len = buf_length b * numOfChan * 2 + 44
      in case new_ArrayBuffer maxByteLength len of
           Inl e \<Rightarrow> Some (Inl e)
         | Inr outBuffer \<Rightarrow>
             (case write_header b len \<lparr>view = outBuffer, pos = 0\<rparr> of
                Inl e \<Rightarrow> Some (Inl e)
              | Inr st1 \<Rightarrow>
                  (case write_data (channelData b) len 0 st1 of
                     None \<Rightarrow> None
                   | Some (Inl e) \<Rightarrow> Some (Inl e)
                   | Some (Inr st2) \<Rightarrow>
                       Some (Inr \<lparr>blob_bytes = view st2, blob_type = ''audio/wav''\<rparr>))))"

subsection \<open>The quantization rule and the container layout in the words of the specification\<close>

definition clamp_unit :: "real \<Rightarrow> real" where
  "clamp_unit s = max (- 1) (min 1 s)"

definition spec_quantize :: "real \<Rightarrow> int" where
  "spec_quantize s = js_trunc (clamp_unit s * (if s < 0 then 32768 else 32767))"

definition ascii :: "string \<Rightarrow> byte list" where
  "ascii cs = map of_char cs"

definition spec_header :: "nat \<Rightarrow> nat \<Rightarrow> nat \<Rightarrow> byte list" where
  "spec_header C N R =
     ascii ''RIFF'' @ le32 (44 + N * C * 2 - 8) @ ascii ''WAVE'' @
     ascii ''fmt '' @ le32 16 @ le16 1 @ le16 C @ le32 R @ le32 (R * C * 2) @
     le16 (C * 2) @ le16 16 @ ascii ''data'' @ le32 (N * C * 2)"

definition frame_bytes :: "sample list list \<Rightarrow> nat \<Rightarrow> byte list" where
  "frame_bytes channels k = concat (map (\<lambda>ch. int16_le (quantize (channel_at ch k))) channels)"

text \<open>The container: the header followed by the frames, every frame in channel order.\<close>

definition wav_bytes :: "AudioBuffer \<Rightarrow> byte list" where
  "wav_bytes b =
     spec_header (numberOfChannels b) (buf_length b) (sampleRate b) @
     concat (map (frame_bytes (channelData b)) [0..<buf_length b])"


definition decode_le :: "byte list \<Rightarrow> nat" where
  "decode_le bs = foldr (\<lambda>b acc. b + 256 * acc) bs 0"

definition well_shaped :: "AudioBuffer \<Rightarrow> bool" where
  "well_shaped b \<longleftrightarrow>
     channelData b \<noteq> [] \<and> list_all (\<lambda>ch. length ch = buf_length b) (channelData b)"

section \<open>Playback session (src/App.tsx)\<close>

subsection \<open>Types (src/types.ts) and session state\<close>

datatype ThemeMode = LIGHT | DARK | SYSTEM

datatype VoiceName = Kore | Puck | Charon | Fenrir | Zephyr

record TTSConfig =
  voiceName :: VoiceName
  speechRate :: real
  playbackSpeed :: real
  pitch :: real
  theme :: ThemeMode

text \<open>
  An AudioBufferSourceNode. Objects are compared by identity in the source
  (\<open>sourceRef.current === activeSource\<close>); \<open>node_id\<close> is that identity, taken from
  the allocation counter \<open>nextNodeId\<close> of the session.
\<close>

record AudioBufferSourceNode =
  node_id :: nat
  playbackRate :: real

text \<open>
  The React state variables and refs of the component \<open>App\<close>. Times are seconds
  and, like the speed, real numbers. The source computes them in double precision: a
  position it computes is the one of the model where the sum and the product are
  representable, as they are for the integers and halves of the concrete sessions below,
  and is the rounding of it elsewhere.
  The reading of the audio device clock (\<open>ctx.currentTime\<close>) is an argument \<open>now\<close> of
  every operation that reads it. \<open>audioContextRef\<close> is True when the ref holds a context.
  The field \<open>text'\<close> is the state variable \<open>text\<close>.
  An event handler runs to completion on the session; no handler of the source reads a
  state variable after having set it, so the values a handler sees are those of the
  session it starts from.
\<close>

record session =
  text' :: string
  isExportMenuOpen :: bool
  isPlaying :: bool
  isLoading :: bool
  playbackPosition :: real
  playbackStartedAtRef :: real
  playbackOffsetAtStartRef :: real
  lastGeneratedTextRef :: string
  lastGeneratedVoiceRef :: "VoiceName option"
  config :: TTSConfig
  audioContextRef :: bool
  sourceRef :: "AudioBufferSourceNode option"
  audioBufferRef :: "AudioBuffer option"
  nextNodeId :: nat

definition initial_session :: session where
  "initial_session =
     \<lparr>text' = [], isExportMenuOpen = False, isPlaying = False, isLoading = False,
      playbackPosition = 0, playbackStartedAtRef = 0, playbackOffsetAtStartRef = 0,
      lastGeneratedTextRef = [], lastGeneratedVoiceRef = None,
      config = \<lparr>voiceName = Kore, speechRate = 1, playbackSpeed = 1, pitch = 1, theme = LIGHT\<rparr>,
      audioContextRef = False, sourceRef = None, audioBufferRef = None, nextNodeId = 0\<rparr>"

text \<open>The textarea, the voice selector and the playback speed slider.\<close>

definition setText :: "string \<Rightarrow> session \<Rightarrow> session" where
  "setText t s = s\<lparr>text' := t\<rparr>"

definition setVoiceName :: "VoiceName \<Rightarrow> session \<Rightarrow> session" where
  "setVoiceName v s = s\<lparr>config := (config s)\<lparr>voiceName := v\<rparr>\<rparr>"

definition setPlaybackSpeed :: "real \<Rightarrow> session \<Rightarrow> session" where
  "setPlaybackSpeed newVal s =
     (let s1 = s\<lparr>config := (config s)\<lparr>playbackSpeed := newVal\<rparr>\<rparr>
      in case sourceRef s1 of
           None \<Rightarrow> s1
         | Some src \<Rightarrow> s1\<lparr>sourceRef := Some (src\<lparr>playbackRate := newVal\<rparr>)\<rparr>)"

subsection \<open>The playback clock\<close>

definition getCurrentOffset :: "real \<Rightarrow> session \<Rightarrow> real" where
  "getCurrentOffset now s =
     (if \<not> isPlaying s \<or> \<not> audioContextRef s then playbackPosition s
      else let elapsed = (now - playbackStartedAtRef s) * playbackSpeed (config s)
           in min (playbackOffsetAtStartRef s + elapsed)
                  (case audioBufferRef s of None \<Rightarrow> 0 | Some b \<Rightarrow> duration b))"

definition stopAudio :: "bool \<Rightarrow> real \<Rightarrow> session \<Rightarrow> session" where
  "stopAudio resetPosition now s =
     (let s1 = (case sourceRef s of
                  None \<Rightarrow> s
                | Some src \<Rightarrow>
                    (if \<not> resetPosition then s\<lparr>playbackPosition := getCurrentOffset now s\<rparr> else s)
                      \<lparr>sourceRef := None\<rparr>);
          s2 = (if resetPosition then s1\<lparr>playbackPosition := 0\<rparr> else s1)
      in s2\<lparr>isPlaying := False\<rparr>)"

definition startPlayback :: "real \<Rightarrow> real \<Rightarrow> session \<Rightarrow> session" where
  "startPlayback offset now s =
     (case audioBufferRef s of
        None \<Rightarrow> s
      | Some b \<Rightarrow>
          (let s1 = stopAudio False now s;
               s2 = s1\<lparr>audioContextRef := True\<rparr>;
               source = \<lparr>node_id = nextNodeId s2, playbackRate = playbackSpeed (config s2)\<rparr>;
               s3 = s2\<lparr>nextNodeId := Suc (nextNodeId s2), sourceRef := Some source\<rparr>;
               startOffset = max 0 (min offset (duration b))
           in s3\<lparr>playbackStartedAtRef := now, playbackOffsetAtStartRef := startOffset,
                 isPlaying := True\<rparr>))"

text \<open>
  The completion callback \<open>source.onended\<close> that \<open>startPlayback\<close> registers on the node
  it creates; \<open>activeSource\<close> is the identity of that node.
\<close>

definition onended :: "nat \<Rightarrow> session \<Rightarrow> session" where
  "onended activeSource s =
     (case sourceRef s of
        None \<Rightarrow> s
      | Some src \<Rightarrow>
          if node_id src = activeSource then s\<lparr>isPlaying := False, playbackPosition := 0\<rparr>
          else s)"

definition startPlaybacks :: "(real \<times> real) list \<Rightarrow> session \<Rightarrow> session" where
  "startPlaybacks calls s = foldl (\<lambda>s' (offset, now). startPlayback offset now s') s calls"

definition handleSkip :: "real \<Rightarrow> real \<Rightarrow> session \<Rightarrow> session" where
  "handleSkip seconds now s =
     (case audioBufferRef s of
        None \<Rightarrow> s
      | Some b \<Rightarrow>
          (let current = getCurrentOffset now s;
               newPos = max 0 (min (current + seconds) (duration b));
               s1 = s\<lparr>playbackPosition := newPos\<rparr>
           in if isPlaying s then startPlayback newPos now s1 else s1))"

text \<open>The animation-frame effect.\<close>

definition tick :: "real \<Rightarrow> session \<Rightarrow> session" where
  "tick now s = (if isPlaying s then s\<lparr>playbackPosition := getCurrentOffset now s\<rparr> else s)"

subsection \<open>Synthesis, play and export\<close>

text \<open>
  \<open>generateSpeech\<close> (services/geminiTTS) is the external synthesis capability: an
  argument of the handlers, returning a buffer or nothing. Each handler returns, with
  the new session, the list of the synthesis calls it made.

  Text is a list of 8-bit characters; the white space that \<open>String.prototype.trim\<close>
  removes is, in that range, TAB, LF, VT, FF, CR, SPACE and NBSP.
\<close>

type_synonym synthesis = "string \<Rightarrow> VoiceName \<Rightarrow> AudioBuffer option"

type_synonym synthesis_call = "string \<times> VoiceName"

definition is_white_space :: "char \<Rightarrow> bool" where
  "is_white_space c \<longleftrightarrow> (of_char c :: nat) \<in> {9, 10, 11, 12, 13, 32, 160}"

definition trim :: "string \<Rightarrow> string" where
  "trim t = rev (dropWhile is_white_space (rev (dropWhile is_white_space t)))"

definition playAudio :: "synthesis \<Rightarrow> real \<Rightarrow> session \<Rightarrow> session \<times> synthesis_call list" where
  "playAudio generateSpeech now s =
     (if trim (text' s) = [] then (s, [])
      else if isPlaying s then (stopAudio False now s, [])
      else if text' s \<noteq> lastGeneratedTextRef s
              \<or> Some (voiceName (config s)) \<noteq> lastGeneratedVoiceRef s
              \<or> audioBufferRef s = None
      then (let buffer = generateSpeech (text' s) (voiceName (config s));
                s1 = s\<lparr>isLoading := False\<rparr>
            in case buffer of
                 None \<Rightarrow> (s1, [(text' s, voiceName (config s))])
               | Some b \<Rightarrow>
                   (startPlayback 0 now
                      (s1\<lparr>audioBufferRef := Some b,
                          lastGeneratedTextRef := text' s,
                          lastGeneratedVoiceRef := Some (voiceName (config s))\<rparr>),
                    [(text' s, voiceName (config s))]))
      else (startPlayback (playbackPosition s) now s, []))"

datatype export_format = Wav | Mp3

fun extension :: "export_format \<Rightarrow> string" where
  "extension Wav = ''wav''"
| "extension Mp3 = ''mp3''"

text \<open>The decimal digits of \<open>Date.now()\<close>, as the template literal prints them.\<close>

fun decimal :: "nat \<Rightarrow> string" where
  "decimal n =
     (if n < 10 then [''0123456789'' ! n]
      else decimal (n div 10) @ [''0123456789'' ! (n mod 10)])"

declare decimal.simps [simp del]

record download =
  filename :: string
  blob :: Blob

datatype export_outcome = NoBuffer | Threw error | Diverged | Downloaded download

definition handleExport ::
  "synthesis \<Rightarrow> export_format \<Rightarrow> nat \<Rightarrow> session
     \<Rightarrow> session \<times> synthesis_call list \<times> export_outcome" where
  "handleExport generateSpeech format dateNow s =
     (let stale = (text' s \<noteq> lastGeneratedTextRef s \<or> audioBufferRef s = None);
          buffer = (if stale then generateSpeech (text' s) (voiceName (config s))
                    else audioBufferRef s);
          s1 = (if stale
                then s\<lparr>audioBufferRef := buffer,
                       lastGeneratedTextRef := text' s,
                       lastGeneratedVoiceRef := Some (voiceName (config s)),
                       isLoading := False\<rparr>
                else s);
          calls = (if stale then [(text' s, voiceName (config s))] else [])
      in case buffer of
           None \<Rightarrow> (s1, calls, NoBuffer)
         | Some b \<Rightarrow>
             (case audioBufferToWav b of
                None \<Rightarrow> (s1, calls, Diverged)
              | Some (Inl e) \<Rightarrow> (s1, calls, Threw e)
              | Some (Inr wav) \<Rightarrow>
                  (s1\<lparr>isExportMenuOpen := False\<rparr>, calls,
                   Downloaded \<lparr>filename = ''t2s_audio_'' @ decimal dateNow @ ''.'' @ extension format,
                               blob = wav\<rparr>)))"

text \<open>A request that may trigger synthesis: the play button or one of the export entries.\<close>

datatype request = Play | Export export_format

fun perform ::
  "synthesis \<Rightarrow> real \<Rightarrow> nat \<Rightarrow> request \<Rightarrow> session \<Rightarrow> session \<times> synthesis_call list" where
  "perform generateSpeech now dateNow Play s = playAudio generateSpeech now s"
| "perform generateSpeech now dateNow (Export format) s =
     (fst (handleExport generateSpeech format dateNow s),
      fst (snd (handleExport generateSpeech format dateNow s)))"

subsection \<open>Concrete buffers and sessions\<close>

text \<open>The buffer of the round-trip test of the specification: 4 frames, 2 channels, 24000 Hz.\<close>

definition roundtrip_buffer :: AudioBuffer where
  "roundtrip_buffer =
     \<lparr>channelData = [[Num 0, Num 1, Num (- 1), Num 0.5], [Num 0, Num 1, Num (- 1), Num 0.5]],
      buf_length = 4, sampleRate = 24000\<rparr>"

text \<open>Silence of ten seconds and of one second at 24000 Hz, one channel.\<close>

definition ten_seconds :: AudioBuffer where
  "ten_seconds = \<lparr>channelData = [replicate 240000 (Num 0)], buf_length = 240000, sampleRate = 24000\<rparr>"

definition one_second :: AudioBuffer where
  "one_second = \<lparr>channelData = [replicate 24000 (Num 0)], buf_length = 24000, sampleRate = 24000\<rparr>"

text \<open>Two buffers of invalid shape: no channel at all, and a second channel one sample short.\<close>

definition no_channels :: AudioBuffer where
  "no_channels = \<lparr>channelData = [], buf_length = 4, sampleRate = 24000\<rparr>"

definition ragged_buffer :: AudioBuffer where
  "ragged_buffer = \<lparr>channelData = [[Num 1, Num 1], [Num 1]], buf_length = 2, sampleRate = 24000\<rparr>"

text \<open>A buffer that declares more frames than any engine allocates bytes.\<close>

definition oversized_buffer :: AudioBuffer where
  "oversized_buffer = \<lparr>channelData = [[Num 0]], buf_length = 2 ^ 52, sampleRate = 24000\<rparr>"

definition unavailable :: synthesis where
  "unavailable t v = None"

definition hello_session :: session where
  "hello_session = setText ''Hello world'' initial_session"

text \<open>Playing the ten seconds from the start, the device clock reading 0.\<close>

definition playing_session :: session where
  "playing_session = fst (playAudio (\<lambda>t v. Some ten_seconds) 0 hello_session)"

text \<open>Paused after five seconds, then the text edited.\<close>

definition paused_session :: session where
  "paused_session = fst (playAudio (\<lambda>t v. Some ten_seconds) 5 playing_session)"

definition edited_session :: session where
  "edited_session = setText ''Hi'' paused_session"

text \<open>An export of the edited text while the synthesis service is unavailable.\<close>

definition failed_export :: "session \<times> synthesis_call list \<times> export_outcome" where
  "failed_export = handleExport unavailable Wav 1730000000000 edited_session"

text \<open>An export of the edited text that synthesizes the one second.\<close>

definition exported_session :: session where
  "exported_session = fst (handleExport (\<lambda>t v. Some one_second) Wav 1730000000000 edited_session)"

text \<open>A playing session whose text has been replaced by white space only.\<close>

definition blank_session :: session where
  "blank_session = setText [CHR '' '', CHR 0x09, CHR 0x0A, CHR 0xA0] playing_session"

text \<open>
  The session holds a buffer whose fingerprints are the current text and voice.
\<close>

definition cached :: "session \<Rightarrow> bool" where
  "cached s \<longleftrightarrow> text' s = lastGeneratedTextRef s \<and>
     Some (voiceName (config s)) = lastGeneratedVoiceRef s \<and> audioBufferRef s \<noteq> None"

section \<open>Properties of the encoder\<close>

subsection \<open>Quantization\<close>

lemma js_trunc_bounds: "- 32768 \<le> a \<Longrightarrow> a \<le> 32767 \<Longrightarrow> - 32768 \<le> js_trunc a \<and> js_trunc a \<le> 32767"
  unfolding js_trunc_def by (auto simp: le_floor_iff ceiling_le_iff)

lemma wrap_int32_id: "- 32768 \<le> i \<Longrightarrow> i \<le> 32767 \<Longrightarrow> wrap_int32 i = i"
  unfolding wrap_int32_def by simp

lemma js_trunc_scaled:
  "- 1 \<le> c \<Longrightarrow> c \<le> 1 \<Longrightarrow> 0 < k \<Longrightarrow> k \<le> 32768 \<Longrightarrow> (0 \<le> c \<longrightarrow> k \<le> 32767) \<Longrightarrow>
   - 32768 \<le> js_trunc (c * k) \<and> js_trunc (c * k) \<le> 32767"
proof -
  assume a: "- 1 \<le> c" "c \<le> 1" "0 < k" "k \<le> 32768" "0 \<le> c \<longrightarrow> k \<le> 32767"
  have lo: "- 32768 \<le> c * k"
  proof (cases "0 \<le> c")
    case True then have "0 \<le> c * k" using a by simp
    then show ?thesis by simp
  next
    case False
    then have "(- c) * k \<le> 1 * 32768" using a by (intro mult_mono) auto
    then show ?thesis by simp
  qed
  have hi: "c * k \<le> 32767"
  proof (cases "0 \<le> c")
    case True then have "c * k \<le> 1 * 32767" using a by (intro mult_mono) auto
    then show ?thesis by simp
  next
    case False then have "c * k \<le> 0" using a by (simp add: mult_le_0_iff)
    then show ?thesis by simp
  qed
  from lo hi show ?thesis by (rule js_trunc_bounds)
qed

lemma spec_quantize_range: "- 32768 \<le> spec_quantize s \<and> spec_quantize s \<le> 32767"
  unfolding spec_quantize_def clamp_unit_def
  by (rule js_trunc_scaled) auto

lemma quantize_Num: "quantize (Num s) = spec_quantize s"
proof -
  have "quantize (Num s) = wrap_int32 (spec_quantize s)"
    unfolding quantize_def spec_quantize_def clamp_unit_def Math_min_def Math_max_def Let_def
    by (auto simp: min_def max_def)
  then show ?thesis using spec_quantize_range [of s] by (simp add: wrap_int32_id)
qed

lemma quantize_special: "quantize PosInf = 32767" "quantize NegInf = - 32768" "quantize NaN = 0"
  unfolding quantize_def Math_min_def Math_max_def Let_def
  by (simp_all add: wrap_int32_def js_trunc_def)




subsection \<open>Writes into the output buffer\<close>

lemma length_le16 [simp]: "length (le16 d) = 2"
  by (simp add: le16_def)

lemma length_le32 [simp]: "length (le32 d) = 4"
  by (simp add: le32_def)

lemma length_int16_le [simp]: "length (int16_le v) = 2"
  by (simp add: int16_le_def)

lemma length_ascii [simp]: "length (ascii cs) = length cs"
  by (simp add: ascii_def)

text \<open>A field that holds a value below its range reads back as that value.\<close>

lemma decode_le16: "d < 2 ^ 16 \<Longrightarrow> decode_le (le16 d) = d"
  by (simp add: decode_le_def le16_def)

lemma decode_le32: "d < 2 ^ 32 \<Longrightarrow> decode_le (le32 d) = d"
proof -
  assume d: "d < 2 ^ 32"
  have a: "d div 65536 = d div 256 div 256" "d div 16777216 = d div 256 div 256 div 256"
    by (simp_all add: div_mult2_eq [symmetric])
  have "decode_le (le32 d) =
      d mod 256 + 256 * (d div 256 mod 256 + 256 * (d div 256 div 256 mod 256 + 256 * (d div 256 div 256 div 256)))"
    using d by (simp add: decode_le_def le32_def a)
  also have "\<dots> = d" by simp
  finally show ?thesis .
qed

lemma put_append:
  "view st = w @ z \<Longrightarrow> pos st = length w \<Longrightarrow> length bs \<le> length z \<Longrightarrow>
   put bs st = Inr \<lparr>view = (w @ bs) @ drop (length bs) z, pos = length (w @ bs)\<rparr>"
  by (simp add: put_def)

lemma run_append:
  "run (ws @ vs) st = (case run ws st of Inl e \<Rightarrow> Inl e | Inr st' \<Rightarrow> run vs st')"
  by (induction ws arbitrary: st) (auto split: sum.splits)

lemma run_put:
  "view st = w @ z \<Longrightarrow> pos st = length w \<Longrightarrow> length (concat bss) \<le> length z \<Longrightarrow>
   run (map put bss) st =
     Inr \<lparr>view = (w @ concat bss) @ drop (length (concat bss)) z, pos = length (w @ concat bss)\<rparr>"
proof (induction bss arbitrary: st w z)
  case Nil
  then show ?case by simp
next
  case (Cons bs bss)
  let ?st = "\<lparr>view = (w @ bs) @ drop (length bs) z, pos = length (w @ bs)\<rparr>"
  have p: "put bs st = Inr ?st"
    using Cons.prems by (intro put_append) auto
  have "run (map put bss) ?st =
     Inr \<lparr>view = ((w @ bs) @ concat bss) @ drop (length (concat bss)) (drop (length bs) z),
          pos = length ((w @ bs) @ concat bss)\<rparr>"
    using Cons.prems by (intro Cons.IH) auto
  then show ?case using p by (simp add: add.commute)
qed

lemma length_spec_header: "length (spec_header C N R) = 44"
  by (simp add: spec_header_def)

lemma write_header_eq:
  "len = N * C * 2 + 44 \<Longrightarrow> numberOfChannels b = C \<Longrightarrow> sampleRate b = R \<Longrightarrow>
   write_header b len \<lparr>view = replicate len 0, pos = 0\<rparr> =
     Inr \<lparr>view = spec_header C N R @ replicate (N * C * 2) 0, pos = 44\<rparr>"
proof -
  assume a: "len = N * C * 2 + 44" "numberOfChannels b = C" "sampleRate b = R"
  let ?bss = "[le32 0x46464952, le32 (len - 8), le32 0x45564157, le32 0x20746d66, le32 16,
               le16 1, le16 C, le32 R, le32 (R * 2 * C), le16 (C * 2), le16 16, le32 0x61746164]"
  let ?st0 = "\<lparr>view = replicate len 0, pos = 0\<rparr>"
  let ?st1 = "\<lparr>view = ([] @ concat ?bss) @ drop (length (concat ?bss)) (replicate len 0),
               pos = length ([] @ concat ?bss)\<rparr>"
  have split: "write_header b len = run (map put ?bss @ [\<lambda>st. setUint32 (len - pos st - 4) st])"
    unfolding write_header_def setUint32_def setUint16_def using a by simp
  have first: "run (map put ?bss) ?st0 = Inr ?st1"
    using a by (intro run_put) auto
  have l: "length (concat ?bss) = 40" by simp
  have last: "setUint32 (len - pos ?st1 - 4) ?st1 =
      Inr \<lparr>view = (concat ?bss @ le32 (N * C * 2)) @ drop 4 (replicate (len - 40) 0),
           pos = length (concat ?bss @ le32 (N * C * 2))\<rparr>"
    unfolding setUint32_def
    apply (subst put_append [where w = "concat ?bss" and z = "replicate (len - 40) 0"])
    using a l by simp_all
  have tags: "le32 0x46464952 = ascii ''RIFF''" "le32 0x45564157 = ascii ''WAVE''"
    "le32 0x20746d66 = ascii ''fmt ''" "le32 0x61746164 = ascii ''data''"
    by (simp_all add: le32_def ascii_def)
  have hdr: "concat ?bss @ le32 (N * C * 2) = spec_header C N R"
    unfolding spec_header_def using a by (simp add: tags mult_ac)
  show ?thesis
    unfolding split run_append first using last l hdr a by simp
qed

lemma length_frame_bytes: "length (frame_bytes chs k) = 2 * length chs"
  unfolding frame_bytes_def by (induction chs) simp_all

lemma write_frame_eq:
  "view st = w @ z \<Longrightarrow> pos st = length w \<Longrightarrow> 2 * length chs \<le> length z \<Longrightarrow>
   write_frame chs offset st =
     Inr \<lparr>view = (w @ frame_bytes chs offset) @ drop (2 * length chs) z,
          pos = length w + 2 * length chs\<rparr>"
proof (induction chs arbitrary: st w z)
  case Nil
  then show ?case by (simp add: frame_bytes_def)
next
  case (Cons ch chs)
  let ?bs = "int16_le (quantize (channel_at ch offset))"
  let ?st = "\<lparr>view = (w @ ?bs) @ drop (length ?bs) z, pos = length (w @ ?bs)\<rparr>"
  have p: "setInt16 (quantize (channel_at ch offset)) st = Inr ?st"
    unfolding setInt16_def using Cons.prems by (intro put_append) auto
  have "write_frame chs offset ?st =
     Inr \<lparr>view = ((w @ ?bs) @ frame_bytes chs offset) @ drop (2 * length chs) (drop (length ?bs) z),
          pos = length (w @ ?bs) + 2 * length chs\<rparr>"
    using Cons.prems by (intro Cons.IH) auto
  then show ?case using p by (simp add: frame_bytes_def add.commute)
qed

lemma write_data_eq:
  "chs \<noteq> [] \<Longrightarrow> view st = w @ replicate (m * (2 * length chs)) 0 \<Longrightarrow> pos st = length w \<Longrightarrow>
   len = length w + m * (2 * length chs) \<Longrightarrow>
   write_data chs len offset st =
     Some (Inr \<lparr>view = w @ concat (map (frame_bytes chs) [offset..<offset + m]), pos = len\<rparr>)"
proof (induction m arbitrary: st w offset)
  case 0
  then have "st = \<lparr>view = w, pos = len\<rparr>" by simp
  then show ?case by (subst write_data.simps) simp
next
  case (Suc m)
  let ?c = "2 * length chs"
  let ?st = "\<lparr>view = (w @ frame_bytes chs offset) @ drop ?c (replicate (Suc m * ?c) 0),
              pos = length w + ?c\<rparr>"
  have lt: "pos st < len" using Suc.prems by (cases chs) auto
  have f: "write_frame chs offset st = Inr ?st"
    using Suc.prems by (intro write_frame_eq) auto
  have "write_data chs len (offset + 1) ?st =
     Some (Inr \<lparr>view = (w @ frame_bytes chs offset) @
                        concat (map (frame_bytes chs) [offset + 1..<offset + 1 + m]),
                pos = len\<rparr>)"
    using Suc.prems by (intro Suc.IH) (auto simp: length_frame_bytes)
  moreover have "[offset..<offset + Suc m] = offset # [offset + 1..<offset + 1 + m]"
    by (simp add: upt_conv_Cons)
  ultimately show ?case
    using lt f by (subst write_data.simps) simp
qed

lemma audioBufferToWav_bytes:
  "audioBufferToWav b =
     Some (Inr \<lparr>blob_bytes = spec_header (numberOfChannels b) (buf_length b) (sampleRate b) @
                              concat (map (frame_bytes (channelData b)) [0..<buf_length b]),
                blob_type = ''audio/wav''\<rparr>)"
proof -
  let ?C = "numberOfChannels b" and ?N = "buf_length b"
  let ?len = "?N * ?C * 2 + 44"
  let ?hdr = "spec_header ?C ?N (sampleRate b)"
  let ?st1 = "\<lparr>view = ?hdr @ replicate (?N * ?C * 2) 0, pos = 44\<rparr>"
  have h: "write_header b ?len \<lparr>view = replicate ?len 0, pos = 0\<rparr> = Inr ?st1"
    by (rule write_header_eq) simp_all
  show ?thesis
  proof (cases "channelData b = []")
    case True
    then have c0: "?C = 0" by (simp add: numberOfChannels_def)
    have d: "write_data (channelData b) ?len 0 ?st1 = Some (Inr ?st1)"
      using c0 by (subst write_data.simps) simp
    have "concat (map (frame_bytes (channelData b)) [0..<?N]) = []"
      using True by (simp add: frame_bytes_def)
    then show ?thesis
      unfolding audioBufferToWav_def Let_def h using d c0 by simp
  next
    case False
    have "write_data (channelData b) ?len 0 ?st1 =
       Some (Inr \<lparr>view = ?hdr @ concat (map (frame_bytes (channelData b)) [0..<0 + ?N]),
                  pos = ?len\<rparr>)"
      using False
      by (intro write_data_eq) (simp_all add: length_spec_header numberOfChannels_def mult_ac)
    then show ?thesis
      unfolding audioBufferToWav_def Let_def h by simp
  qed
qed

lemma length_concat_frames:
  "length (concat (map (frame_bytes chs) [k..<k + n])) = n * length chs * 2"
  by (simp add: length_concat comp_def length_frame_bytes sum_list_triv)

lemma audioBufferToWav_eq:
  "audioBufferToWav b = Some (Inr \<lparr>blob_bytes = wav_bytes b, blob_type = ''audio/wav''\<rparr>)"
  by (simp add: audioBufferToWav_bytes wav_bytes_def)

lemma audioBufferToWav_alloc_fits:
  "buf_length b * numberOfChannels b * 2 + 44 \<le> maxByteLength \<Longrightarrow>
   audioBufferToWav_alloc maxByteLength b = audioBufferToWav b"
  by (simp add: audioBufferToWav_alloc_def audioBufferToWav_def new_ArrayBuffer_def Let_def)

lemma audioBufferToWav_alloc_exceeds:
  "\<not> buf_length b * numberOfChannels b * 2 + 44 \<le> maxByteLength \<Longrightarrow>
   audioBufferToWav_alloc maxByteLength b = Some (Inl RangeError)"
  by (simp add: audioBufferToWav_alloc_def new_ArrayBuffer_def Let_def)

lemma length_wav_bytes: "length (wav_bytes b) = 44 + buf_length b * numberOfChannels b * 2"
  using length_concat_frames [of "channelData b" 0 "buf_length b"]
  by (simp add: wav_bytes_def length_spec_header numberOfChannels_def)


lemma roundtrip_well_shaped: "well_shaped roundtrip_buffer"
  by (simp add: well_shaped_def roundtrip_buffer_def)

section \<open>Properties of the session\<close>

lemma handleExport_eq:
  "handleExport g f t s =
     (if text' s \<noteq> lastGeneratedTextRef s \<or> audioBufferRef s = None
      then (case g (text' s) (voiceName (config s)) of
              None \<Rightarrow> (s\<lparr>audioBufferRef := None, lastGeneratedTextRef := text' s,
                         lastGeneratedVoiceRef := Some (voiceName (config s)), isLoading := False\<rparr>,
                       [(text' s, voiceName (config s))], NoBuffer)
            | Some b \<Rightarrow> (s\<lparr>audioBufferRef := Some b, lastGeneratedTextRef := text' s,
                         lastGeneratedVoiceRef := Some (voiceName (config s)), isLoading := False,
                         isExportMenuOpen := False\<rparr>,
                       [(text' s, voiceName (config s))],
                       Downloaded \<lparr>filename = ''t2s_audio_'' @ decimal t @ ''.'' @ extension f,
                                   blob = \<lparr>blob_bytes = wav_bytes b, blob_type = ''audio/wav''\<rparr>\<rparr>))
      else (s\<lparr>isExportMenuOpen := False\<rparr>, [],
            Downloaded \<lparr>filename = ''t2s_audio_'' @ decimal t @ ''.'' @ extension f,
                        blob = \<lparr>blob_bytes = wav_bytes (the (audioBufferRef s)),
                                 blob_type = ''audio/wav''\<rparr>\<rparr>))"
  by (auto simp: handleExport_def audioBufferToWav_eq Let_def split: option.splits)

lemma stopAudio_frame:
  "text' (stopAudio r n s) = text' s" "config (stopAudio r n s) = config s"
  "lastGeneratedTextRef (stopAudio r n s) = lastGeneratedTextRef s"
  "lastGeneratedVoiceRef (stopAudio r n s) = lastGeneratedVoiceRef s"
  "audioBufferRef (stopAudio r n s) = audioBufferRef s"
  "nextNodeId (stopAudio r n s) = nextNodeId s"
  "sourceRef (stopAudio r n s) = None"
  "isPlaying (stopAudio r n s) = False"
  by (simp_all add: stopAudio_def Let_def split: option.splits)

lemma startPlayback_frame:
  "text' (startPlayback off n s) = text' s" "config (startPlayback off n s) = config s"
  "lastGeneratedTextRef (startPlayback off n s) = lastGeneratedTextRef s"
  "lastGeneratedVoiceRef (startPlayback off n s) = lastGeneratedVoiceRef s"
  "audioBufferRef (startPlayback off n s) = audioBufferRef s"
  by (simp_all add: startPlayback_def stopAudio_frame Let_def split: option.splits)

lemma startPlayback_loaded:
  "audioBufferRef s = Some b \<Longrightarrow>
   sourceRef (startPlayback off n s) =
     Some \<lparr>node_id = nextNodeId s, playbackRate = playbackSpeed (config s)\<rparr> \<and>
   nextNodeId (startPlayback off n s) = Suc (nextNodeId s) \<and>
   isPlaying (startPlayback off n s) \<and> audioContextRef (startPlayback off n s) \<and>
   playbackStartedAtRef (startPlayback off n s) = n \<and>
   playbackOffsetAtStartRef (startPlayback off n s) = max 0 (min off (duration b))"
  by (simp add: startPlayback_def stopAudio_frame Let_def)

lemma duration_nonneg: "0 \<le> duration b"
  by (simp add: duration_def)

lemma startPlayback_clamps:
  "audioBufferRef s = Some b \<Longrightarrow>
   0 \<le> playbackOffsetAtStartRef (startPlayback off n s) \<and>
   playbackOffsetAtStartRef (startPlayback off n s) \<le> duration b"
  using duration_nonneg [of b] by (simp add: startPlayback_loaded)

lemma getCurrentOffset_playing:
  "isPlaying s \<Longrightarrow> audioContextRef s \<Longrightarrow> audioBufferRef s = Some b \<Longrightarrow>
   getCurrentOffset n s =
     min (playbackOffsetAtStartRef s + (n - playbackStartedAtRef s) * playbackSpeed (config s))
         (duration b)"
  by (simp add: getCurrentOffset_def)

lemma getCurrentOffset_stopped: "\<not> isPlaying s \<Longrightarrow> getCurrentOffset n s = playbackPosition s"
  by (simp add: getCurrentOffset_def)

text \<open>Where the clock clamps: the playing position, a skip, and the offset a playback starts from.\<close>

lemma getCurrentOffset_in_range:
  "audioBufferRef s = Some b \<Longrightarrow> 0 \<le> playbackPosition s \<Longrightarrow> playbackPosition s \<le> duration b \<Longrightarrow>
   0 \<le> playbackOffsetAtStartRef s \<Longrightarrow> 0 \<le> playbackSpeed (config s) \<Longrightarrow>
   playbackStartedAtRef s \<le> now \<Longrightarrow>
   0 \<le> getCurrentOffset now s \<and> getCurrentOffset now s \<le> duration b"
  using duration_nonneg [of b] by (simp add: getCurrentOffset_def Let_def)

lemma handleSkip_clamps:
  "audioBufferRef s = Some b \<Longrightarrow> \<not> isPlaying s \<Longrightarrow>
   playbackPosition (handleSkip seconds now s) = max 0 (min (playbackPosition s + seconds) (duration b)) \<and>
   0 \<le> playbackPosition (handleSkip seconds now s) \<and>
   playbackPosition (handleSkip seconds now s) \<le> duration b"
  using duration_nonneg [of b] by (simp add: handleSkip_def getCurrentOffset_def Let_def)

lemma handleSkip_playing_clamps:
  "audioBufferRef s = Some b \<Longrightarrow> isPlaying s \<Longrightarrow>
   playbackOffsetAtStartRef (handleSkip seconds now s) =
     max 0 (min (getCurrentOffset now s + seconds) (duration b))"
proof -
  assume b: "audioBufferRef s = Some b" and p: "isPlaying s"
  let ?newPos = "max 0 (min (getCurrentOffset now s + seconds) (duration b))"
  have "handleSkip seconds now s = startPlayback ?newPos now (s\<lparr>playbackPosition := ?newPos\<rparr>)"
    using b p by (simp add: handleSkip_def Let_def)
  moreover have "audioBufferRef (s\<lparr>playbackPosition := ?newPos\<rparr>) = Some b" using b by simp
  ultimately show ?thesis
    using startPlayback_loaded [of "s\<lparr>playbackPosition := ?newPos\<rparr>" b ?newPos now]
      duration_nonneg [of b]
    by simp
qed

lemma setPlaybackSpeed_fields:
  "isPlaying (setPlaybackSpeed v s) = isPlaying s"
  "audioContextRef (setPlaybackSpeed v s) = audioContextRef s"
  "audioBufferRef (setPlaybackSpeed v s) = audioBufferRef s"
  "playbackPosition (setPlaybackSpeed v s) = playbackPosition s"
  "playbackStartedAtRef (setPlaybackSpeed v s) = playbackStartedAtRef s"
  "playbackOffsetAtStartRef (setPlaybackSpeed v s) = playbackOffsetAtStartRef s"
  "playbackSpeed (config (setPlaybackSpeed v s)) = v"
  by (simp_all add: setPlaybackSpeed_def Let_def split: option.splits)

lemma setPlaybackSpeed_source:
  "sourceRef (setPlaybackSpeed v s) = map_option (\<lambda>src. src\<lparr>playbackRate := v\<rparr>) (sourceRef s)"
  by (simp add: setPlaybackSpeed_def Let_def split: option.splits)

lemma onended_stale:
  "(case sourceRef s of None \<Rightarrow> True | Some src \<Rightarrow> node_id src \<noteq> a) \<Longrightarrow> onended a s = s"
  by (simp add: onended_def split: option.splits)

lemma startPlaybacks_fresh:
  "audioBufferRef s \<noteq> None \<Longrightarrow> n \<le> nextNodeId s \<Longrightarrow>
   (case sourceRef s of None \<Rightarrow> True | Some src \<Rightarrow> n \<le> node_id src) \<Longrightarrow>
   audioBufferRef (startPlaybacks calls s) \<noteq> None \<and> n \<le> nextNodeId (startPlaybacks calls s) \<and>
   (case sourceRef (startPlaybacks calls s) of None \<Rightarrow> True | Some src \<Rightarrow> n \<le> node_id src)"
proof (induction calls arbitrary: s)
  case Nil
  then show ?case by (simp add: startPlaybacks_def)
next
  case (Cons c calls)
  obtain off t where c: "c = (off, t)" by (cases c)
  obtain b where b: "audioBufferRef s = Some b" using Cons.prems by auto
  have step: "startPlaybacks (c # calls) s = startPlaybacks calls (startPlayback off t s)"
    by (simp add: startPlaybacks_def c)
  have "audioBufferRef (startPlayback off t s) \<noteq> None" "n \<le> nextNodeId (startPlayback off t s)"
    "case sourceRef (startPlayback off t s) of None \<Rightarrow> True | Some src \<Rightarrow> n \<le> node_id src"
    using Cons.prems b startPlayback_loaded [OF b, of off t]
    by (simp_all add: startPlayback_frame)
  then show ?case unfolding step by (rule Cons.IH)
qed

lemma trim_blank: "list_all is_white_space t \<Longrightarrow> trim t = []"
  unfolding trim_def by (auto simp: list_all_iff dest: set_dropWhileD)

lemma playAudio_blank: "list_all is_white_space (text' s) \<Longrightarrow> playAudio g n s = (s, [])"
  by (simp add: playAudio_def trim_blank)

lemma playAudio_calls:
  "snd (playAudio g n s) =
     (if trim (text' s) \<noteq> [] \<and> \<not> isPlaying s \<and>
         (text' s \<noteq> lastGeneratedTextRef s \<or> Some (voiceName (config s)) \<noteq> lastGeneratedVoiceRef s
          \<or> audioBufferRef s = None)
      then [(text' s, voiceName (config s))] else [])"
  by (simp add: playAudio_def Let_def split: option.splits)

lemma handleExport_calls:
  "fst (snd (handleExport g f t s)) =
     (if text' s \<noteq> lastGeneratedTextRef s \<or> audioBufferRef s = None
      then [(text' s, voiceName (config s))] else [])"
  by (simp add: handleExport_eq split: option.splits)

lemma perform_calls:
  "snd (perform g n t r s) = [] \<or> snd (perform g n t r s) = [(text' s, voiceName (config s))]"
  by (cases r) (simp_all add: playAudio_calls handleExport_calls)

lemma perform_cached: "cached s \<Longrightarrow> snd (perform g n t r s) = []"
  by (cases r) (auto simp: cached_def playAudio_calls handleExport_calls)

lemma perform_success_cached:
  "snd (perform g n t r s) \<noteq> [] \<Longrightarrow> g (text' s) (voiceName (config s)) \<noteq> None \<Longrightarrow>
   cached (fst (perform g n t r s))"
proof (cases r)
  case Play
  assume "snd (perform g n t r s) \<noteq> []" "g (text' s) (voiceName (config s)) \<noteq> None"
  then show ?thesis using Play
    by (auto simp: playAudio_def cached_def startPlayback_frame Let_def split: if_splits)
next
  case (Export f)
  assume "snd (perform g n t r s) \<noteq> []" "g (text' s) (voiceName (config s)) \<noteq> None"
  then show ?thesis using Export
    by (auto simp: handleExport_eq cached_def split: if_splits option.splits)
qed

text \<open>
  A request leaves the text and the voice alone. When the service is unavailable, the
  export path overwrites buffer and fingerprints and the play path keeps them.
\<close>

lemma perform_frame:
  "text' (fst (perform g n t r s)) = text' s \<and>
   voiceName (config (fst (perform g n t r s))) = voiceName (config s)"
proof (cases r)
  case Play
  then show ?thesis
    by (simp add: playAudio_def startPlayback_frame stopAudio_frame Let_def split: option.splits)
next
  case (Export f)
  then show ?thesis by (simp add: handleExport_eq split: option.splits)
qed

lemma handleExport_unavailable:
  "text' s \<noteq> lastGeneratedTextRef s \<or> audioBufferRef s = None \<Longrightarrow>
   g (text' s) (voiceName (config s)) = None \<Longrightarrow>
   audioBufferRef (fst (handleExport g f t s)) = None \<and>
   lastGeneratedTextRef (fst (handleExport g f t s)) = text' s \<and>
   lastGeneratedVoiceRef (fst (handleExport g f t s)) = Some (voiceName (config s))"
  by (simp add: handleExport_eq)

lemma playAudio_unavailable:
  "g (text' s) (voiceName (config s)) = None \<Longrightarrow> \<not> isPlaying s \<Longrightarrow>
   audioBufferRef (fst (playAudio g n s)) = audioBufferRef s \<and>
   lastGeneratedTextRef (fst (playAudio g n s)) = lastGeneratedTextRef s \<and>
   lastGeneratedVoiceRef (fst (playAudio g n s)) = lastGeneratedVoiceRef s"
  by (simp add: playAudio_def startPlayback_frame Let_def)

subsection \<open>The concrete sessions\<close>

lemma duration_demo: "duration ten_seconds = 10" "duration one_second = 1"
  by (simp_all add: duration_def ten_seconds_def one_second_def)

lemma trim_hello: "trim ''Hello world'' = ''Hello world''"
  by (simp add: trim_def is_white_space_def)

lemma hello_session_eq:
  "hello_session = initial_session\<lparr>text' := ''Hello world''\<rparr>"
  by (simp add: hello_session_def setText_def)

lemma playing_session_eq:
  "playing_session =
     \<lparr>text' = ''Hello world'', isExportMenuOpen = False, isPlaying = True, isLoading = False,
      playbackPosition = 0, playbackStartedAtRef = 0, playbackOffsetAtStartRef = 0,
      lastGeneratedTextRef = ''Hello world'', lastGeneratedVoiceRef = Some Kore,
      config = \<lparr>voiceName = Kore, speechRate = 1, playbackSpeed = 1, pitch = 1, theme = LIGHT\<rparr>,
      audioContextRef = True, sourceRef = Some \<lparr>node_id = 0, playbackRate = 1\<rparr>,
      audioBufferRef = Some ten_seconds, nextNodeId = 1\<rparr>"
  by (simp add: playing_session_def hello_session_eq initial_session_def playAudio_def trim_hello
      startPlayback_def stopAudio_def duration_demo Let_def)

lemma playing_session_fields:
  "isPlaying playing_session" "audioContextRef playing_session"
  "playbackStartedAtRef playing_session = 0" "playbackOffsetAtStartRef playing_session = 0"
  "playbackSpeed (config playing_session) = 1" "audioBufferRef playing_session = Some ten_seconds"
  "playbackPosition playing_session = 0" "nextNodeId playing_session = 1"
  by (simp_all add: playing_session_eq)

lemma paused_session_eq:
  "paused_session =
     \<lparr>text' = ''Hello world'', isExportMenuOpen = False, isPlaying = False, isLoading = False,
      playbackPosition = 5, playbackStartedAtRef = 0, playbackOffsetAtStartRef = 0,
      lastGeneratedTextRef = ''Hello world'', lastGeneratedVoiceRef = Some Kore,
      config = \<lparr>voiceName = Kore, speechRate = 1, playbackSpeed = 1, pitch = 1, theme = LIGHT\<rparr>,
      audioContextRef = True, sourceRef = None,
      audioBufferRef = Some ten_seconds, nextNodeId = 1\<rparr>"
  by (simp add: paused_session_def playing_session_eq playAudio_def trim_hello
      stopAudio_def getCurrentOffset_def duration_demo Let_def)

lemma edited_session_eq: "edited_session = paused_session\<lparr>text' := ''Hi''\<rparr>"
  by (simp add: edited_session_def setText_def)

section \<open>The claims\<close>

text \<open>
  Claim C1. An export whose synthesis request returns no buffer should leave the buffer
  and the fingerprints (lastSynthesizedText, lastSynthesizedVoice) of the session as they
  were. \<open>handleExport\<close> stores the result of the request and the new fingerprints before
  it tests the result: in \<open>edited_session\<close>, which holds the ten seconds synthesized for
  ``Hello world'' and whose text is now ``Hi'', a failed export leaves no buffer and the
  fingerprint ``Hi''. \<open>playAudio\<close> stores both only under \<open>if (buffer)\<close>.
\<close>

theorem export_failure_clears_buffer:
  "audioBufferRef edited_session = Some ten_seconds \<and>
   lastGeneratedTextRef edited_session = ''Hello world'' \<and>
   fst (snd failed_export) = [(''Hi'', Kore)] \<and>
   snd (snd failed_export) = NoBuffer \<and>
   audioBufferRef (fst failed_export) = None \<and>
   lastGeneratedTextRef (fst failed_export) = ''Hi''"
  by (simp add: failed_export_def handleExport_eq edited_session_eq paused_session_eq unavailable_def)

text \<open>
  Claim C2. Changing the speed of a playing session should snapshot the current offset
  at the old speed and re-anchor clockAtStart and offsetAtStart, so that the reported
  position is continuous. \<open>startPlayback\<close> and \<open>handleSkip\<close> set both anchors anew; the
  slider handler sets the speed of the configuration and the rate of the live node and
  leaves the anchors at 0. Two seconds into the playback, at one and the same reading of
  the clock, the reported position goes from 2 to 6 when the speed becomes 3 and from 2 to
  1 when it becomes 0.5, and a pause at that instant stores 6 where it stores 2 without
  the change.
\<close>

theorem speed_change_jumps:
  "isPlaying playing_session \<and>
   playbackStartedAtRef playing_session = 0 \<and> playbackOffsetAtStartRef playing_session = 0 \<and>
   getCurrentOffset 2 playing_session = 2 \<and>
   sourceRef (setPlaybackSpeed 3 playing_session) = Some \<lparr>node_id = 0, playbackRate = 3\<rparr> \<and>
   playbackStartedAtRef (setPlaybackSpeed 3 playing_session) = 0 \<and>
   playbackOffsetAtStartRef (setPlaybackSpeed 3 playing_session) = 0 \<and>
   getCurrentOffset 2 (setPlaybackSpeed 3 playing_session) = 6 \<and>
   getCurrentOffset 2 (setPlaybackSpeed 0.5 playing_session) = 1 \<and>
   playbackPosition (fst (playAudio unavailable 2 playing_session)) = 2 \<and>
   playbackPosition (fst (playAudio unavailable 2 (setPlaybackSpeed 3 playing_session))) = 6"
  by (simp add: playing_session_eq setPlaybackSpeed_def getCurrentOffset_def duration_demo Let_def
      playAudio_def trim_hello stopAudio_def)

theorem speed_change_jumps_witness:
  "getCurrentOffset 2 (setPlaybackSpeed 3 playing_session) - getCurrentOffset 2 playing_session = 4 \<and>
   getCurrentOffset 2 (setPlaybackSpeed 0.5 playing_session) < getCurrentOffset 2 playing_session \<and>
   playbackStartedAtRef (setPlaybackSpeed 3 playing_session) \<noteq> 2"
  using speed_change_jumps by simp





text \<open>
  Claim C5, second half as stated: two consecutive requests with the same text and voice
  and no edit in between invoke synthesis at most once. When the first request finds the
  service unavailable nothing is cached, and the second request asks again.
\<close>

theorem repeated_synthesis_after_failure:
  "fst (playAudio unavailable 0 hello_session) = hello_session \<and>
   snd (playAudio unavailable 0 hello_session) = [(''Hello world'', Kore)] \<and>
   snd (playAudio unavailable 1 (fst (playAudio unavailable 0 hello_session))) =
     [(''Hello world'', Kore)]"
proof -
  have p: "playAudio unavailable n hello_session = (hello_session, [(''Hello world'', Kore)])" for n
    by (simp add: playAudio_def hello_session_eq initial_session_def trim_hello unavailable_def)
  show ?thesis by (simp add: p)
qed

text \<open>
  Claim C5, as the code has it. A request (play or export) invokes synthesis at most once,
  for the text and voice of the session, and only when that pair differs from the stored
  fingerprints or no buffer is held. Two consecutive requests with no edit in between
  invoke synthesis at most once in total, provided the call of the first request, if it
  made one, returned a buffer.
\<close>

theorem synthesis_gate:
  "(snd (perform g now t r s) \<noteq> [] \<longrightarrow>
      snd (perform g now t r s) = [(text' s, voiceName (config s))] \<and>
      ((text' s, Some (voiceName (config s))) \<noteq> (lastGeneratedTextRef s, lastGeneratedVoiceRef s)
       \<or> audioBufferRef s = None)) \<and>
   text' (fst (perform g now t r s)) = text' s \<and>
   voiceName (config (fst (perform g now t r s))) = voiceName (config s) \<and>
   ((\<forall>c \<in> set (snd (perform g now t r s)). g (fst c) (snd c) \<noteq> None) \<longrightarrow>
      length (snd (perform g now t r s) @
              snd (perform g2 now2 t2 r2 (fst (perform g now t r s)))) \<le> 1)"
proof (intro conjI impI)
  assume "snd (perform g now t r s) \<noteq> []"
  then show "snd (perform g now t r s) = [(text' s, voiceName (config s))]"
    using perform_calls [of g now t r s] by simp
next
  assume "snd (perform g now t r s) \<noteq> []"
  then show "(text' s, Some (voiceName (config s))) \<noteq> (lastGeneratedTextRef s, lastGeneratedVoiceRef s)
       \<or> audioBufferRef s = None"
    by (cases r) (auto simp: playAudio_calls handleExport_calls split: if_splits)
next
  show "text' (fst (perform g now t r s)) = text' s"
    "voiceName (config (fst (perform g now t r s))) = voiceName (config s)"
    using perform_frame [of g now t r s] by simp_all
next
  assume ok: "\<forall>c \<in> set (snd (perform g now t r s)). g (fst c) (snd c) \<noteq> None"
  show "length (snd (perform g now t r s) @
              snd (perform g2 now2 t2 r2 (fst (perform g now t r s)))) \<le> 1"
  proof (cases "snd (perform g now t r s) = []")
    case True
    then show ?thesis
      using perform_calls [of g2 now2 t2 r2 "fst (perform g now t r s)"] by auto
  next
    case False
    then have c: "snd (perform g now t r s) = [(text' s, voiceName (config s))]"
      using perform_calls [of g now t r s] by simp
    then have "g (text' s) (voiceName (config s)) \<noteq> None" using ok by simp
    then have "cached (fst (perform g now t r s))"
      using False by (intro perform_success_cached)
    then have "snd (perform g2 now2 t2 r2 (fst (perform g now t r s))) = []"
      by (rule perform_cached)
    then show ?thesis using c by simp
  qed
qed

theorem synthesis_gate_witness:
  "snd (perform (\<lambda>t v. Some ten_seconds) 0 1730000000123 Play hello_session) = [(''Hello world'', Kore)] \<and>
   snd (perform unavailable 1 1730000000456 (Export Wav)
          (fst (perform (\<lambda>t v. Some ten_seconds) 0 1730000000123 Play hello_session))) = []"
proof -
  have c: "snd (perform (\<lambda>t v. Some ten_seconds) 0 1730000000123 Play hello_session) =
      [(''Hello world'', Kore)]"
    by (simp add: playAudio_calls hello_session_eq initial_session_def trim_hello)
  show ?thesis
    using c synthesis_gate [of "\<lambda>t v. Some ten_seconds" 0 1730000000123 Play hello_session
        unavailable 1 1730000000456 "Export Wav"]
    by simp
qed

text \<open>
  Claim C6. With a buffer loaded the reported position should always lie within
  [0, duration]. \<open>getCurrentOffset\<close> bounds the position by the duration only while
  playing; stopped, it reports the stored offset. \<open>handleExport\<close> replaces the buffer and
  leaves that offset alone: paused at 5 seconds of the ten, then the text edited and
  exported, the session holds a buffer of 1 second and reports the position 5.
  \<open>playAudio\<close> restarts a new buffer at 0.
\<close>

theorem stale_position_after_export:
  "audioBufferRef exported_session = Some one_second \<and> duration one_second = 1 \<and>
   \<not> isPlaying exported_session \<and> getCurrentOffset 7 exported_session = 5"
  by (simp add: exported_session_def handleExport_eq edited_session_eq paused_session_eq
      getCurrentOffset_def duration_demo)

theorem stale_position_after_export_witness:
  "audioBufferRef exported_session = Some one_second \<and>
   \<not> getCurrentOffset 7 exported_session \<le> duration one_second"
  using stale_position_after_export by simp

text \<open>
  Claim C7. The completion callback of a playback instance stops the session and resets
  the position to 0 while that instance is the active one; once one or more later
  \<open>startPlayback\<close> calls have superseded it, the callback changes nothing (the session
  is still playing the newest instance). In any session, a callback whose instance is not
  the one the session holds changes nothing.
\<close>

theorem stale_completion_ignored:
  assumes "audioBufferRef s \<noteq> None" and "calls \<noteq> []"
  shows "sourceRef (startPlayback offset now s) =
           Some \<lparr>node_id = nextNodeId s, playbackRate = playbackSpeed (config s)\<rparr> \<and>
         onended (nextNodeId s) (startPlayback offset now s) =
           (startPlayback offset now s)\<lparr>isPlaying := False, playbackPosition := 0\<rparr> \<and>
         isPlaying (startPlaybacks calls (startPlayback offset now s)) \<and>
         onended (nextNodeId s) (startPlaybacks calls (startPlayback offset now s)) =
           startPlaybacks calls (startPlayback offset now s) \<and>
         ((case sourceRef s' of None \<Rightarrow> True | Some src \<Rightarrow> node_id src \<noteq> a) \<longrightarrow>
            onended a s' = s')"
proof -
  obtain b where b: "audioBufferRef s = Some b" using assms by auto
  let ?s1 = "startPlayback offset now s"
  obtain c rest where calls: "calls = c # rest" using assms by (cases calls) auto
  obtain off t where c: "c = (off, t)" by (cases c)
  let ?s2 = "startPlayback off t ?s1"
  have b1: "audioBufferRef ?s1 = Some b" by (simp add: startPlayback_frame b)
  have s1: "sourceRef ?s1 = Some \<lparr>node_id = nextNodeId s, playbackRate = playbackSpeed (config s)\<rparr>"
    "nextNodeId ?s1 = Suc (nextNodeId s)"
    using startPlayback_loaded [OF b, of offset now] by simp_all
  have s2: "sourceRef ?s2 = Some \<lparr>node_id = Suc (nextNodeId s), playbackRate = playbackSpeed (config ?s1)\<rparr>"
    "nextNodeId ?s2 = Suc (Suc (nextNodeId s))" "audioBufferRef ?s2 \<noteq> None"
    using startPlayback_loaded [OF b1, of off t] s1 by (simp_all add: startPlayback_frame b)
  have split: "startPlaybacks calls ?s1 = startPlaybacks rest ?s2"
    by (simp add: startPlaybacks_def calls c)
  have fresh: "case sourceRef (startPlaybacks rest ?s2) of None \<Rightarrow> True
               | Some src \<Rightarrow> Suc (nextNodeId s) \<le> node_id src"
    using startPlaybacks_fresh [of ?s2 "Suc (nextNodeId s)" rest] s2 by simp
  have playing: "isPlaying (startPlaybacks rest ?s2)"
  proof (cases rest rule: rev_cases)
    case Nil
    then show ?thesis using startPlayback_loaded [OF b1, of off t] by (simp add: startPlaybacks_def)
  next
    case (snoc ys y)
    obtain off' t' where y: "y = (off', t')" by (cases y)
    have "audioBufferRef (startPlaybacks ys ?s2) \<noteq> None"
      using startPlaybacks_fresh [of ?s2 0 ys] s2 by (simp split: option.splits)
    then obtain b' where "audioBufferRef (startPlaybacks ys ?s2) = Some b'" by auto
    from startPlayback_loaded [OF this, of off' t'] show ?thesis
      by (simp add: startPlaybacks_def snoc y)
  qed
  have stale: "onended (nextNodeId s) (startPlaybacks rest ?s2) = startPlaybacks rest ?s2"
    using fresh by (intro onended_stale) (auto split: option.splits)
  have active: "onended (nextNodeId s) ?s1 = ?s1\<lparr>isPlaying := False, playbackPosition := 0\<rparr>"
    by (simp add: onended_def s1)
  have guard: "(case sourceRef s' of None \<Rightarrow> True | Some src \<Rightarrow> node_id src \<noteq> a) \<longrightarrow>
      onended a s' = s'"
    using onended_stale [where s = s' and a = a] by blast
  show ?thesis using s1 active playing stale guard by (simp add: split)
qed

theorem stale_completion_ignored_witness:
  "audioBufferRef paused_session \<noteq> None \<and>
   onended 1 (startPlaybacks [(2, 8), (0, 9)] (startPlayback 5 7 paused_session)) =
     startPlaybacks [(2, 8), (0, 9)] (startPlayback 5 7 paused_session) \<and>
   isPlaying (startPlaybacks [(2, 8), (0, 9)] (startPlayback 5 7 paused_session)) \<and>
   \<not> isPlaying (onended 1 (startPlayback 5 7 paused_session))"
proof -
  have b: "audioBufferRef paused_session \<noteq> None" by (simp add: paused_session_eq)
  have n: "nextNodeId paused_session = 1" by (simp add: paused_session_eq)
  have l: "[(2, 8), (0, 9)] \<noteq> ([] :: (real \<times> real) list)" by simp
  show ?thesis
    using b stale_completion_ignored [OF b l, where offset = 5 and now = 7 and s' = paused_session and a = 0]
    by (simp add: n)
qed

text \<open>
  Claim C8. The MP3 path returns what the WAV encoder returns. Every exported file is
  named \<open>t2s_audio_\<close>, the decimal timestamp, a dot and the requested extension; its
  content has type audio/wav and is the output of the WAV encoder, the same for both
  requested formats. An export ends with such a file or, without a buffer, with nothing.
\<close>

theorem export_is_wav:
  "audioBufferToMp3 b = audioBufferToWav b \<and>
   (snd (snd (handleExport g f t s)) = Downloaded d \<longrightarrow>
      filename d = ''t2s_audio_'' @ decimal t @ ''.'' @ extension f \<and>
      blob_type (blob d) = ''audio/wav'' \<and>
      (\<exists>b'. audioBufferToWav b' = Some (Inr (blob d)) \<and> audioBufferToMp3 b' = Some (Inr (blob d))) \<and>
      (\<exists>d'. snd (snd (handleExport g Wav t s)) = Downloaded d' \<and> blob d' = blob d) \<and>
      (\<exists>d'. snd (snd (handleExport g Mp3 t s)) = Downloaded d' \<and> blob d' = blob d)) \<and>
   snd (snd (handleExport g f t s)) \<noteq> Diverged \<and>
   (\<forall>e. snd (snd (handleExport g f t s)) \<noteq> Threw e)"
  by (auto simp: audioBufferToMp3_def handleExport_eq audioBufferToWav_eq split: if_splits option.splits)

theorem export_is_wav_witness:
  "snd (snd (handleExport (\<lambda>t v. Some roundtrip_buffer) Mp3 1730000000123 hello_session)) =
     Downloaded \<lparr>filename = ''t2s_audio_1730000000123.mp3'',
                 blob = \<lparr>blob_bytes = wav_bytes roundtrip_buffer, blob_type = ''audio/wav''\<rparr>\<rparr>"
proof -
  have e: "snd (snd (handleExport (\<lambda>t v. Some roundtrip_buffer) Mp3 1730000000123 hello_session)) =
     Downloaded \<lparr>filename = ''t2s_audio_'' @ decimal 1730000000123 @ ''.mp3'',
                 blob = \<lparr>blob_bytes = wav_bytes roundtrip_buffer, blob_type = ''audio/wav''\<rparr>\<rparr>"
    by (simp add: handleExport_eq hello_session_eq initial_session_def)
  have d: "decimal 1730000000123 = ''1730000000123''"
    by (simp add: decimal.simps)
  show ?thesis
    using export_is_wav [of roundtrip_buffer "\<lambda>t v. Some roundtrip_buffer" Mp3 1730000000123
        hello_session "\<lparr>filename = ''t2s_audio_1730000000123.mp3'',
                 blob = \<lparr>blob_bytes = wav_bytes roundtrip_buffer, blob_type = ''audio/wav''\<rparr>\<rparr>"] e d
    by simp
qed

text \<open>
  Claim C9, as stated: a buffer of invalid shape makes the encoder fail with
  InvalidAudioBuffer. The encoder checks nothing: with no channel it returns the header
  alone, and with a channel one sample short it writes 0 for the missing sample.
\<close>

theorem encoder_accepts_bad_shapes:
  "\<not> well_shaped no_channels \<and> \<not> well_shaped ragged_buffer \<and>
   audioBufferToWav_alloc 2147483647 no_channels =
     Some (Inr \<lparr>blob_bytes =
       [82, 73, 70, 70,  36, 0, 0, 0,  87, 65, 86, 69,  102, 109, 116, 32,  16, 0, 0, 0,
        1, 0,  0, 0,  192, 93, 0, 0,  0, 0, 0, 0,  0, 0,  16, 0,
        100, 97, 116, 97,  0, 0, 0, 0],
       blob_type = ''audio/wav''\<rparr>) \<and>
   audioBufferToWav_alloc 2147483647 ragged_buffer =
     Some (Inr \<lparr>blob_bytes =
       [82, 73, 70, 70,  44, 0, 0, 0,  87, 65, 86, 69,  102, 109, 116, 32,  16, 0, 0, 0,
        1, 0,  2, 0,  192, 93, 0, 0,  0, 119, 1, 0,  4, 0,  16, 0,
        100, 97, 116, 97,  8, 0, 0, 0,
        255, 127, 255, 127,  255, 127, 0, 0],
       blob_type = ''audio/wav''\<rparr>)"
proof -
  have "audioBufferToWav_alloc 2147483647 no_channels = audioBufferToWav no_channels"
    by (rule audioBufferToWav_alloc_fits) (simp add: no_channels_def numberOfChannels_def)
  moreover have "audioBufferToWav_alloc 2147483647 ragged_buffer = audioBufferToWav ragged_buffer"
    by (rule audioBufferToWav_alloc_fits) (simp add: ragged_buffer_def numberOfChannels_def)
  ultimately show ?thesis
    by (simp add: audioBufferToWav_eq wav_bytes_def no_channels_def ragged_buffer_def well_shaped_def
      numberOfChannels_def spec_header_def ascii_def le32_def le16_def frame_bytes_def channel_at_def
      int16_le_def quantize_Num quantize_special spec_quantize_def clamp_unit_def js_trunc_def
      upt_conv_Cons)
qed

text \<open>
  Claim C9, as the code has it. The encoder does not look at the shape of its input and
  never fails with InvalidAudioBuffer. Its one failure is the RangeError of allocating
  the \<open>44 + N * C * 2\<close> bytes of the output; when they are allocated the loop ends, no
  write leaves the output buffer and the container is returned, for a well-shaped buffer
  and for any other: with no channel the header alone, and 0 for a sample missing from a
  channel.
\<close>

theorem encoder_fails_only_allocating:
  "audioBufferToWav_alloc maxByteLength b =
     (if buf_length b * numberOfChannels b * 2 + 44 \<le> maxByteLength
      then Some (Inr \<lparr>blob_bytes = wav_bytes b, blob_type = ''audio/wav''\<rparr>)
      else Some (Inl RangeError)) \<and>
   length (wav_bytes b) = 44 + buf_length b * numberOfChannels b * 2 \<and>
   (channelData b = [] \<longrightarrow> wav_bytes b = spec_header 0 (buf_length b) (sampleRate b)) \<and>
   (length ch \<le> k \<longrightarrow> int16_le (quantize (channel_at ch k)) = [0, 0])"
proof (intro conjI impI)
  show "audioBufferToWav_alloc maxByteLength b =
     (if buf_length b * numberOfChannels b * 2 + 44 \<le> maxByteLength
      then Some (Inr \<lparr>blob_bytes = wav_bytes b, blob_type = ''audio/wav''\<rparr>)
      else Some (Inl RangeError))"
    by (simp add: audioBufferToWav_alloc_fits audioBufferToWav_alloc_exceeds audioBufferToWav_eq)
  show "length (wav_bytes b) = 44 + buf_length b * numberOfChannels b * 2"
    by (rule length_wav_bytes)
  show "wav_bytes b = spec_header 0 (buf_length b) (sampleRate b)" if "channelData b = []"
    using that by (simp add: wav_bytes_def numberOfChannels_def frame_bytes_def)
  show "int16_le (quantize (channel_at ch k)) = [0, 0]" if "length ch \<le> k"
    using that by (simp add: channel_at_def quantize_special int16_le_def)
qed

theorem encoder_fails_only_allocating_witness:
  "channelData no_channels = [] \<and>
   audioBufferToWav_alloc 2147483647 no_channels =
     Some (Inr \<lparr>blob_bytes = spec_header 0 4 24000, blob_type = ''audio/wav''\<rparr>) \<and>
   length (spec_header 0 4 24000) = 44 \<and>
   int16_le (quantize (channel_at [Num 1] 1)) = [0, 0] \<and>
   audioBufferToWav_alloc 8589934592 oversized_buffer = Some (Inl RangeError) \<and>
   well_shaped roundtrip_buffer \<and>
   audioBufferToWav_alloc 59 roundtrip_buffer = Some (Inl RangeError) \<and>
   audioBufferToWav_alloc 60 roundtrip_buffer =
     Some (Inr \<lparr>blob_bytes = wav_bytes roundtrip_buffer, blob_type = ''audio/wav''\<rparr>)"
proof -
  have n: "buf_length no_channels = 4" "sampleRate no_channels = 24000"
    "channelData no_channels = []" "numberOfChannels no_channels = 0"
    by (simp_all add: no_channels_def numberOfChannels_def)
  have o: "buf_length oversized_buffer = 2 ^ 52" "numberOfChannels oversized_buffer = 1"
    by (simp_all add: oversized_buffer_def numberOfChannels_def)
  have r: "buf_length roundtrip_buffer = 4" "numberOfChannels roundtrip_buffer = 2"
    by (simp_all add: roundtrip_buffer_def numberOfChannels_def)
  show ?thesis
    using encoder_fails_only_allocating [of 2147483647 no_channels "[Num 1]" 1]
      encoder_fails_only_allocating [of 8589934592 oversized_buffer "[]" 0]
      encoder_fails_only_allocating [of 59 roundtrip_buffer "[]" 0]
      encoder_fails_only_allocating [of 60 roundtrip_buffer "[]" 0]
      roundtrip_well_shaped
    by (simp add: n o r length_spec_header)
qed

text \<open>
  Claim C10. With a text that is empty or white space only, \<open>playAudio\<close> returns at
  once: no synthesis call is made and the session is unchanged, whatever its state.
\<close>

theorem play_blank_text_noop:
  assumes "list_all is_white_space (text' s)"
  shows "playAudio generateSpeech now s = (s, [])"
  using assms by (rule playAudio_blank)

theorem play_blank_text_noop_witness:
  "list_all is_white_space (text' blank_session) \<and> isPlaying blank_session \<and>
   playAudio (\<lambda>t v. Some one_second) 3 blank_session = (blank_session, [])"
proof -
  have b: "list_all is_white_space (text' blank_session)"
    by (simp add: blank_session_def setText_def is_white_space_def)
  have "isPlaying blank_session"
    by (simp add: blank_session_def setText_def playing_session_fields)
  then show ?thesis using b play_blank_text_noop [OF b] by simp
qed

end
